theory Spec2Isabelle
  imports Main
begin

section \<open>JavaScript values used by the front end\<close>

text \<open>
  The front end is TypeScript. Every \<^verbatim>\<open>await\<close> on a collaborator (the auth provider,
  the database client, the HTTP client) either returns a value or throws; the model makes
  the outcome of each such call an explicit input. A thrown value is an \<^verbatim>\<open>Error\<close>
  object carrying a message, or some other value (the handlers test
  \<^verbatim>\<open>e instanceof Error\<close>).
\<close>

datatype thrown = ErrorObj string | NonError

datatype 'a call = Threw thrown | Returned 'a

text \<open>Truthiness of an optional string: \<^verbatim>\<open>undefined\<close>, \<^verbatim>\<open>null\<close> and \<^verbatim>\<open>""\<close> are falsy.\<close>

fun truthy :: "string option \<Rightarrow> bool" where
  "truthy None = False"
| "truthy (Some s) = (s \<noteq> [])"

text \<open>\<^verbatim>\<open>a || d\<close> on strings and on numbers.\<close>

definition or_str :: "string \<Rightarrow> string \<Rightarrow> string" where
  "or_str a d = (if a = [] then d else a)"

definition or_num :: "int \<Rightarrow> int \<Rightarrow> int" where
  "or_num a d = (if a = 0 then d else a)"

text \<open>\<^verbatim>\<open>String.prototype.startsWith\<close> and \<^verbatim>\<open>String.prototype.includes\<close>.\<close>

fun startsWith :: "string \<Rightarrow> string \<Rightarrow> bool" where
  "startsWith s [] = True"
| "startsWith [] (p # ps) = False"
| "startsWith (c # cs) (p # ps) = (c = p \<and> startsWith cs ps)"

fun str_includes :: "string \<Rightarrow> string \<Rightarrow> bool" where
  "str_includes [] sub = (sub = [])"
| "str_includes (c # cs) sub = (startsWith (c # cs) sub \<or> str_includes cs sub)"

section \<open>User profile and credits (lib/userProfile.ts)\<close>

text \<open>
  \<^verbatim>\<open>interface UserProfile { id; email; full_name?; credits; created_at; updated_at }\<close>
\<close>

record user_profile =
  up_id :: string
  up_email :: string
  up_full_name :: "string option"
  up_credits :: int
  up_created_at :: string
  up_updated_at :: string

text \<open>
  \<^verbatim>\<open>supabase.auth.getUser()\<close> resolves to \<^verbatim>\<open>{ data: { user }, error }\<close>; a query resolves
  to \<^verbatim>\<open>{ data, error }\<close>. An error object is represented by its message.
\<close>

record get_user_result =
  gu_user :: "string option"
  gu_error :: "string option"

record 'a query_result =
  qr_data :: "'a option"
  qr_error :: "string option"

text \<open>
  The collaborators of \<^verbatim>\<open>getUserProfile\<close>: the outcome of \<^verbatim>\<open>auth.getUser()\<close> and, for
  each user id, the outcome of
  \<^verbatim>\<open>from('user_profiles').select('*').eq('id', id).single()\<close>.
\<close>

record supabase_env =
  auth_getUser :: "get_user_result call"
  profiles_single :: "string \<Rightarrow> user_profile query_result call"

text \<open>The body of the \<^verbatim>\<open>try\<close> block of \<^verbatim>\<open>getUserProfile\<close>; \<open>Inl\<close> is a throw.\<close>

definition getUserProfile_try :: "supabase_env \<Rightarrow> thrown + user_profile option" where
  "getUserProfile_try env =
     (case auth_getUser env of
        Threw e \<Rightarrow> Inl e
      | Returned r \<Rightarrow>
          (case gu_error r of
             Some userError \<Rightarrow> Inr None
           | None \<Rightarrow>
               (case gu_user r of
                  None \<Rightarrow> Inr None
                | Some uid \<Rightarrow>
                    (case profiles_single env uid of
                       Threw e \<Rightarrow> Inl e
                     | Returned q \<Rightarrow>
                         (case qr_error q of
                            Some err \<Rightarrow> Inr None
                          | None \<Rightarrow> Inr (qr_data q))))))"

text \<open>\<^verbatim>\<open>try { ... } catch (error) { return null; }\<close>\<close>

definition getUserProfile :: "supabase_env \<Rightarrow> thrown + user_profile option" where
  "getUserProfile env =
     (case getUserProfile_try env of
        Inl e \<Rightarrow> Inr None
      | Inr p \<Rightarrow> Inr p)"

text \<open>\<^verbatim>\<open>profile?.credits || 0\<close>\<close>

definition credits_or_zero :: "user_profile option \<Rightarrow> int" where
  "credits_or_zero profile =
     (case profile of None \<Rightarrow> 0 | Some p \<Rightarrow> or_num (up_credits p) 0)"

definition getUserCredits_try :: "supabase_env \<Rightarrow> thrown + int" where
  "getUserCredits_try env =
     (case getUserProfile env of
        Inl e \<Rightarrow> Inl e
      | Inr profile \<Rightarrow> Inr (credits_or_zero profile))"

text \<open>\<^verbatim>\<open>try { ... } catch (error) { return 0; }\<close>\<close>

definition getUserCredits :: "supabase_env \<Rightarrow> thrown + int" where
  "getUserCredits env =
     (case getUserCredits_try env of
        Inl e \<Rightarrow> Inr 0
      | Inr n \<Rightarrow> Inr n)"

text \<open>
  What the function is meant to compute, read off the four failure paths: 0 unless a user
  is signed in, the profile query succeeds and returns a row, in which case the row's
  \<^verbatim>\<open>credits\<close>.
\<close>

definition credits_of_env :: "supabase_env \<Rightarrow> int" where
  "credits_of_env env =
     (case auth_getUser env of
        Threw e \<Rightarrow> 0
      | Returned r \<Rightarrow>
          (if gu_error r = None then
             (case gu_user r of
                None \<Rightarrow> 0
              | Some uid \<Rightarrow>
                  (case profiles_single env uid of
                     Threw e \<Rightarrow> 0
                   | Returned q \<Rightarrow>
                       (if qr_error q = None then
                          (case qr_data q of None \<Rightarrow> 0 | Some p \<Rightarrow> up_credits p)
                        else 0)))
           else 0))"

section \<open>API types (app/api/essay-api.ts)\<close>

record source =
  src_title :: string
  src_author :: string
  src_publication_info :: string
  src_author_last_name :: string
  src_publication_year :: int
  src_url :: string
  src_apa_citation :: string
  src_relevance :: string
  src_details :: string

record outline_component =
  main_idea :: string
  subtopics :: "string list"
  oc_sources :: "source list option"

record outline_response =
  outline_components :: "outline_component list"

record api_response =
  ar_outline :: outline_response
  ar_writing_analysis :: string
  ar_sources :: "source list list"

text \<open>\<^verbatim>\<open>status: 'processing' | 'completed' | 'failed'\<close>\<close>

datatype job_state = processing | completed | failed

text \<open>
  \<^verbatim>\<open>interface JobStatus { status; progress; stage; result?; error? }\<close>. The essay-status
  endpoint returns the same shape with another result payload, so the payload is a type
  parameter.
\<close>

record 'r job_status =
  js_status :: job_state
  js_progress :: int
  js_stage :: string
  js_result :: "'r option"
  js_error :: "string option"

text \<open>\<^verbatim>\<open>interface JobResponse { job_id; status; error? }\<close>\<close>

record job_response =
  jr_job_id :: string
  jr_status :: string
  jr_error :: "string option"

text \<open>The only field of an essay job's result the wizard reads.\<close>

record essay_result =
  paper_id :: "string option"

section \<open>The essay wizard (app/components/essay-form.tsx)\<close>

subsection \<open>Component state\<close>

record citation =
  cit_id :: int
  cit_title :: string
  cit_author :: string
  cit_year :: int
  cit_selected :: bool
  cit_publisher :: string
  cit_description :: string
  cit_relevance :: string
  cit_url :: string

record outline_section =
  sec_title :: string
  sec_subsections :: "string list"

record ui_outline =
  ol_title :: string
  ol_sections :: "outline_section list"

definition PLACEHOLDER_CITATIONS :: "citation list" where
  "PLACEHOLDER_CITATIONS =
     [\<lparr>cit_id = 1, cit_title = ''The Impact of Social Media on Modern Society'',
        cit_author = ''John Smith'', cit_year = 2022, cit_selected = False,
        cit_publisher = ''Journal of Digital Studies'',
        cit_description = ''A comprehensive study examining how social media platforms have transformed societal interactions'',
        cit_relevance = ''Directly addresses the impact of social media on communication patterns'',
        cit_url = ''https://example.com/paper1''\<rparr>,
      \<lparr>cit_id = 2, cit_title = ''Digital Age Communication'',
        cit_author = ''Sarah Johnson'', cit_year = 2021, cit_selected = False,
        cit_publisher = ''Communications Quarterly'',
        cit_description = ''Analysis of communication methods in the digital era'',
        cit_relevance = ''Provides historical context and current trends in digital communication'',
        cit_url = ''https://example.com/paper2''\<rparr>,
      \<lparr>cit_id = 3, cit_title = ''Understanding Social Networks'',
        cit_author = ''Michael Brown'', cit_year = 2023, cit_selected = False,
        cit_publisher = ''Tech & Society Review'',
        cit_description = ''Research on social network dynamics and their influence on society'',
        cit_relevance = ''Explores the psychological aspects of social media interaction'',
        cit_url = ''https://example.com/paper3''\<rparr>]"

definition PLACEHOLDER_OUTLINE :: ui_outline where
  "PLACEHOLDER_OUTLINE =
     \<lparr>ol_title = ''The Impact of Social Media'',
      ol_sections =
        [\<lparr>sec_title = ''Introduction'',
           sec_subsections = [''Background of social media'', ''Thesis statement'']\<rparr>,
         \<lparr>sec_title = ''Positive Effects'',
           sec_subsections = [''Enhanced connectivity'', ''Business opportunities'', ''Information sharing'']\<rparr>,
         \<lparr>sec_title = ''Negative Effects'',
           sec_subsections = [''Mental health concerns'', ''Privacy issues'', ''Addiction'']\<rparr>,
         \<lparr>sec_title = ''Conclusion'',
           sec_subsections = [''Summary of findings'', ''Future implications'']\<rparr>]\<rparr>"

text \<open>\<^verbatim>\<open>formData\<close>; its \<^verbatim>\<open>outline: null\<close> member is never written and is left out.\<close>

record form_data =
  topic :: string
  wordCount :: int
  citationFormat :: string
  writingStyle :: string
  selectedCitations :: "int list"
  studentName :: string
  professorName :: string
  className :: string

datatype loading_stage = Sources | Outline

record generation_stage =
  writing :: bool
  plagiarism :: bool
  finalizing :: bool

text \<open>
  One field per \<^verbatim>\<open>useState\<close> of \<^verbatim>\<open>EssayForm\<close>, in the order of the source
  (\<^verbatim>\<open>promptQuality\<close> and \<^verbatim>\<open>isFileLoading\<close>, which only the text-area and upload
  handlers touch, are left out). An uploaded \<^verbatim>\<open>File\<close> is represented by its name.
\<close>

record wizard =
  currentStep :: nat
  formData :: form_data
  uploadedFile :: "string option"
  uploadedAssignment :: "string option"
  citations :: "citation list"
  outline :: ui_outline
  pastedAssignment :: string
  writingAnalysis :: string
  pastedEssay :: string
  isLoading :: bool
  loadingProgress :: int
  loadingStage :: "loading_stage option"
  generationStage :: generation_stage
  apiOutline :: "outline_response option"
  apiSources :: "source list list"
  error :: "string option"
  jobId :: "string option"
  showCreditConfirmation :: bool
  userCredits :: "int option"
  insufficientCredits :: bool
  essayJobId :: "string option"
  isGeneratingOutline :: bool
  isGeneratingEssay :: bool

definition initial_wizard :: wizard where
  "initial_wizard =
     \<lparr>currentStep = 1,
      formData = \<lparr>topic = [], wordCount = 1500, citationFormat = ''apa'', writingStyle = [],
                  selectedCitations = [], studentName = [], professorName = [],
                  className = []\<rparr>,
      uploadedFile = None,
      uploadedAssignment = None,
      citations = PLACEHOLDER_CITATIONS,
      outline = PLACEHOLDER_OUTLINE,
      pastedAssignment = [],
      writingAnalysis = [],
      pastedEssay = [],
      isLoading = False,
      loadingProgress = 0,
      loadingStage = None,
      generationStage = \<lparr>writing = False, plagiarism = False, finalizing = False\<rparr>,
      apiOutline = None,
      apiSources = [],
      error = None,
      jobId = None,
      showCreditConfirmation = False,
      userCredits = None,
      insufficientCredits = False,
      essayJobId = None,
      isGeneratingOutline = False,
      isGeneratingEssay = False\<rparr>"

definition totalSteps :: nat where
  "totalSteps = 6"

definition getStepTitle :: "nat \<Rightarrow> string" where
  "getStepTitle step =
     (if step = 1 then ''Essay Topic''
      else if step = 2 then ''Word Count''
      else if step = 3 then ''Format & Style''
      else if step = 4 then ''Writing Style Analysis''
      else if step = 5 then ''Citations''
      else if step = 6 then ''Outline''
      else [])"

subsection \<open>Submitting the outline-and-sources job\<close>

text \<open>
  Both submission handlers test the response's error string with
  \<^verbatim>\<open>e.includes("Malicious prompt") || e.includes("detected something strange")\<close>.
\<close>

definition isGuardrailError :: "string \<Rightarrow> bool" where
  "isGuardrailError e =
     (str_includes e ''Malicious prompt'' \<or> str_includes e ''detected something strange'')"

text \<open>\<^verbatim>\<open>err instanceof Error ? err.message : fallback\<close>\<close>

fun message_or :: "thrown \<Rightarrow> string \<Rightarrow> string" where
  "message_or (ErrorObj m) fallback = m"
| "message_or NonError fallback = fallback"

text \<open>
  \<^verbatim>\<open>fetchSourcesAndOutline\<close>: the argument is the outcome of
  \<^verbatim>\<open>await startOutlineAndSourcesJob({...})\<close>. The request itself is consumed by the
  backend and is not part of the component state.
\<close>

definition fetchSourcesAndOutline_catch :: "wizard \<Rightarrow> thrown \<Rightarrow> wizard" where
  "fetchSourcesAndOutline_catch s e =
     s\<lparr>error := Some (message_or e ''Failed to generate outline and sources''),
       isLoading := False,
       isGeneratingOutline := False,
       loadingProgress := 0,
       loadingStage := None\<rparr>"

definition fetchSourcesAndOutline :: "wizard \<Rightarrow> job_response call \<Rightarrow> wizard" where
  "fetchSourcesAndOutline s outcome =
     (let s0 = s\<lparr>isLoading := True,
                  isGeneratingOutline := True,
                  loadingProgress := 0,
                  loadingStage := Some Sources,
                  error := None\<rparr>
      in case outcome of
           Threw e \<Rightarrow> fetchSourcesAndOutline_catch s0 e
         | Returned jobResponse \<Rightarrow>
             (if truthy (jr_error jobResponse) then
                (case jr_error jobResponse of
                   None \<Rightarrow> s0
                 | Some e \<Rightarrow>
                     (if isGuardrailError e then
                        s0\<lparr>error := Some ''We detected something strange in your assignment topic and description. Please rewrite it.'',
                           isLoading := False,
                           isGeneratingOutline := False,
                           loadingProgress := 0,
                           loadingStage := None,
                           currentStep := 1\<rparr>
                      else fetchSourcesAndOutline_catch s0 (ErrorObj e)))
              else s0\<lparr>jobId := Some (jr_job_id jobResponse)\<rparr>))"

subsection \<open>Submitting the essay-generation job\<close>

definition no_generation :: generation_stage where
  "no_generation = \<lparr>writing = False, plagiarism = False, finalizing = False\<rparr>"

definition generateFinalEssay_catch :: "wizard \<Rightarrow> thrown \<Rightarrow> wizard" where
  "generateFinalEssay_catch s e =
     s\<lparr>error := Some (message_or e ''Failed to start essay generation''),
       isLoading := False,
       isGeneratingEssay := False,
       loadingProgress := 0,
       generationStage := no_generation\<rparr>"

text \<open>
  \<^verbatim>\<open>generateFinalEssay\<close>: the argument is the outcome of
  \<^verbatim>\<open>await generateEssayJob(essayData)\<close>.
\<close>

definition generateFinalEssay :: "wizard \<Rightarrow> job_response call \<Rightarrow> wizard" where
  "generateFinalEssay s outcome =
     (let s0 = s\<lparr>isLoading := True,
                  isGeneratingEssay := True,
                  loadingProgress := 0,
                  generationStage := \<lparr>writing = True, plagiarism = False, finalizing = False\<rparr>,
                  error := None\<rparr>
      in case outcome of
           Threw e \<Rightarrow> generateFinalEssay_catch s0 e
         | Returned jobResponse \<Rightarrow>
             (if truthy (jr_error jobResponse) then
                (case jr_error jobResponse of
                   None \<Rightarrow> s0
                 | Some e \<Rightarrow>
                     (if isGuardrailError e then
                        s0\<lparr>error := Some ''We detected something strange in your outline. Please make adjustments to it.'',
                           isLoading := False,
                           isGeneratingEssay := False,
                           loadingProgress := 0,
                           generationStage := no_generation,
                           currentStep := 2\<rparr>
                      else generateFinalEssay_catch s0 (ErrorObj e)))
              else s0\<lparr>essayJobId := Some (jr_job_id jobResponse)\<rparr>))"

subsection \<open>Polling the outline-and-sources job\<close>

text \<open>
  The conversion of the result's sources into the wizard's citations. With the declared
  type \<^verbatim>\<open>Source[][]\<close> the first branch (\<^verbatim>\<open>sources.flat()\<close>) is taken for a non-empty
  array and the last one (the array itself) for an empty one; both are the concatenation.
  \<^verbatim>\<open>new Date().getFullYear()\<close> is the argument \<open>year\<close>.
\<close>

definition convertSource :: "int \<Rightarrow> nat \<times> source \<Rightarrow> citation" where
  "convertSource year p =
     (case p of (index, src) \<Rightarrow>
        \<lparr>cit_id = int index + 1,
         cit_title = or_str (src_title src) ''Unknown Title'',
         cit_author = or_str (src_author src) ''Unknown'',
         cit_year = or_num (src_publication_year src) year,
         cit_selected = False,
         cit_publisher = or_str (src_publication_info src) ''Academic Source'',
         cit_description = or_str (src_details src) [],
         cit_relevance = or_str (src_relevance src) ''Relevant to your topic'',
         cit_url = or_str (src_url src) ''#''\<rparr>)"

definition convertSources :: "int \<Rightarrow> source list list \<Rightarrow> citation list" where
  "convertSources year srcs =
     (let flatSources = concat srcs
      in map (convertSource year) (zip [0 ..< length flatSources] flatSources))"

definition convertOutline :: "string \<Rightarrow> outline_response \<Rightarrow> ui_outline" where
  "convertOutline title resp =
     \<lparr>ol_title = title,
      ol_sections =
        map (\<lambda>component. \<lparr>sec_title = main_idea component,
                            sec_subsections = subtopics component\<rparr>)
            (outline_components resp)\<rparr>"

definition pollJobStatus_catch :: "wizard \<Rightarrow> thrown \<Rightarrow> wizard" where
  "pollJobStatus_catch s e =
     s\<lparr>error := Some (message_or e ''Failed to check job status''),
       isLoading := False,
       isGeneratingOutline := False,
       loadingProgress := 0,
       loadingStage := None,
       jobId := None\<rparr>"

text \<open>
  \<^verbatim>\<open>pollJobStatus\<close>: the argument is the outcome of \<^verbatim>\<open>await getJobStatus(jobId)\<close>; the
  result pairs the returned flag (\<^verbatim>\<open>true\<close>: done polling) with the new state.
\<close>

definition pollJobStatus :: "int \<Rightarrow> wizard \<Rightarrow> api_response job_status call \<Rightarrow> bool \<times> wizard" where
  "pollJobStatus year s outcome =
     (case outcome of
        Threw e \<Rightarrow> (True, pollJobStatus_catch s e)
      | Returned status \<Rightarrow>
          (let s1 = s\<lparr>loadingProgress := js_progress status\<rparr>;
               s2 = (if js_stage status = ''creating_outline'' then s1\<lparr>loadingStage := Some Outline\<rparr>
                     else if js_stage status = ''finding_sources'' then s1\<lparr>loadingStage := Some Sources\<rparr>
                     else s1)
           in case (if js_status status = completed then js_result status else None) of
                Some result \<Rightarrow>
                  (True,
                   s2\<lparr>apiOutline := Some (ar_outline result),
                      writingAnalysis := ar_writing_analysis result,
                      apiSources := ar_sources result,
                      outline := convertOutline (topic (formData s)) (ar_outline result),
                      citations := convertSources year (ar_sources result),
                      isLoading := False,
                      isGeneratingOutline := False,
                      loadingProgress := 100,
                      loadingStage := None,
                      currentStep := 5,
                      jobId := None\<rparr>)
              | None \<Rightarrow>
                  (if js_status status = failed then
                     (True,
                      s2\<lparr>error := Some (case js_error status of
                                           None \<Rightarrow> ''Job failed''
                                         | Some e \<Rightarrow> or_str e ''Job failed''),
                         isLoading := False,
                         isGeneratingOutline := False,
                         loadingProgress := 0,
                         loadingStage := None,
                         jobId := None\<rparr>)
                   else (False, s2))))"

subsection \<open>Polling the essay job\<close>

definition pollEssayStatus_catch :: "wizard \<Rightarrow> thrown \<Rightarrow> wizard" where
  "pollEssayStatus_catch s e =
     s\<lparr>error := Some (message_or e ''Failed to check essay status''),
       isLoading := False,
       isGeneratingEssay := False,
       loadingProgress := 0,
       generationStage := no_generation,
       essayJobId := None\<rparr>"

text \<open>
  \<^verbatim>\<open>pollEssayStatus\<close>: the third component of the result is the value assigned to
  \<^verbatim>\<open>window.location.href\<close>, if any.
\<close>

definition pollEssayStatus ::
    "wizard \<Rightarrow> essay_result job_status call \<Rightarrow> bool \<times> wizard \<times> string option" where
  "pollEssayStatus s outcome =
     (case outcome of
        Threw e \<Rightarrow> (True, pollEssayStatus_catch s e, None)
      | Returned status \<Rightarrow>
          (let s1 = s\<lparr>loadingProgress := js_progress status\<rparr>;
               s2 = (if js_stage status = ''writing_essay'' then
                       s1\<lparr>generationStage := \<lparr>writing = True, plagiarism = False, finalizing = False\<rparr>\<rparr>
                     else if js_stage status = ''checking_plagiarism'' then
                       s1\<lparr>generationStage := \<lparr>writing = True, plagiarism = True, finalizing = False\<rparr>\<rparr>
                     else if js_stage status = ''finalizing'' then
                       s1\<lparr>generationStage := \<lparr>writing = True, plagiarism = True, finalizing = True\<rparr>\<rparr>
                     else s1)
           in case (if js_status status = completed then js_result status else None) of
                Some result \<Rightarrow>
                  (if truthy (paper_id result) then
                     (True, s2\<lparr>essayJobId := None\<rparr>,
                      Some (''/dashboard?tab=history&highlight='' @
                            (case paper_id result of None \<Rightarrow> [] | Some p \<Rightarrow> p)))
                   else
                     (True,
                      s2\<lparr>isLoading := False,
                         isGeneratingEssay := False,
                         loadingProgress := 0,
                         generationStage := no_generation,
                         essayJobId := None\<rparr>,
                      None))
              | None \<Rightarrow>
                  (if js_status status = failed then
                     (True,
                      s2\<lparr>error := Some (case js_error status of
                                           None \<Rightarrow> ''Essay generation failed''
                                         | Some e \<Rightarrow> or_str e ''Essay generation failed''),
                         isLoading := False,
                         isGeneratingEssay := False,
                         loadingProgress := 0,
                         generationStage := no_generation,
                         essayJobId := None\<rparr>,
                      None)
                   else (False, s2, None))))"

subsection \<open>The polling effects\<close>

text \<open>
  Each polling \<^verbatim>\<open>useEffect\<close> is set up only while its job id is set and the wizard is
  loading (\<^verbatim>\<open>if (jobId && isLoading)\<close>); React tears it down, clearing the interval,
  as soon as one of the two changes.
\<close>

definition jobPollingActive :: "wizard \<Rightarrow> bool" where
  "jobPollingActive s = (truthy (jobId s) \<and> isLoading s)"

definition essayPollingActive :: "wizard \<Rightarrow> bool" where
  "essayPollingActive s = (truthy (essayJobId s) \<and> isLoading s)"



text \<open>
  The loop the effect runs: one poll per outcome of the status endpoint, in order, until a
  poll returns \<^verbatim>\<open>true\<close> (\<^verbatim>\<open>clearInterval\<close>) or the outcomes are exhausted. The result
  is the number of status requests made and the state reached.
\<close>

fun poll_loop :: "(wizard \<Rightarrow> 'o \<Rightarrow> bool \<times> wizard) \<Rightarrow> wizard \<Rightarrow> 'o list \<Rightarrow> nat \<times> wizard" where
  "poll_loop poll s [] = (0, s)"
| "poll_loop poll s (x # xs) =
     (case poll s x of
        (isDone, s') \<Rightarrow>
          (if isDone then (1, s')
           else (case poll_loop poll s' xs of (n, s'') \<Rightarrow> (Suc n, s''))))"

definition pollJobLoop :: "int \<Rightarrow> wizard \<Rightarrow> api_response job_status call list \<Rightarrow> nat \<times> wizard" where
  "pollJobLoop year = poll_loop (pollJobStatus year)"

definition pollEssayLoop :: "wizard \<Rightarrow> essay_result job_status call list \<Rightarrow> nat \<times> wizard" where
  "pollEssayLoop = poll_loop (\<lambda>s outcome. case pollEssayStatus s outcome of (isDone, s', nav) \<Rightarrow> (isDone, s'))"

text \<open>
  The outcomes on which a poll reports that it is done, read off the three \<^verbatim>\<open>return true\<close>
  of each poller: a completed status that carries a result, a failed status, a throw.
\<close>

fun ends_polling :: "'r job_status call \<Rightarrow> bool" where
  "ends_polling (Threw e) = True"
| "ends_polling (Returned status) =
     (case js_status status of
        completed \<Rightarrow> (case js_result status of None \<Rightarrow> False | Some r \<Rightarrow> True)
      | failed \<Rightarrow> True
      | processing \<Rightarrow> False)"





subsection \<open>Credits check\<close>

text \<open>
  \<^verbatim>\<open>fetchCredits\<close>: the argument is the outcome of \<^verbatim>\<open>await getUserCredits()\<close>.
\<close>

definition fetchCredits :: "wizard \<Rightarrow> thrown + int \<Rightarrow> wizard" where
  "fetchCredits s outcome =
     (case outcome of
        Inr credits \<Rightarrow> s\<lparr>userCredits := Some credits, insufficientCredits := (credits < 2)\<rparr>
      | Inl e \<Rightarrow> s\<lparr>userCredits := Some 0, insufficientCredits := True\<rparr>)"

text \<open>
  The condition under which the purchase-credits overlay is rendered:
  \<^verbatim>\<open>((userCredits !== null && parseInt(userCredits.toString()) <= 0) || insufficientCredits) && currentStep === 1\<close>
  (credits are integers, on which \<^verbatim>\<open>parseInt(n.toString())\<close> is the identity).
\<close>

definition creditsOverlayShown :: "wizard \<Rightarrow> bool" where
  "creditsOverlayShown s =
     (((case userCredits s of None \<Rightarrow> False | Some c \<Rightarrow> c \<le> 0) \<or> insufficientCredits s)
      \<and> currentStep s = 1)"

text \<open>
  What the component returns: the error view (message and start-over button) when
  \<^verbatim>\<open>error\<close> is truthy, else the wizard card, with or without the purchase overlay.
\<close>

datatype view = ErrorView string | WizardView bool

definition render :: "wizard \<Rightarrow> view" where
  "render s =
     (case error s of
        None \<Rightarrow> WizardView (creditsOverlayShown s)
      | Some e \<Rightarrow> (if e = [] then WizardView (creditsOverlayShown s) else ErrorView e))"

subsection \<open>Start over\<close>

definition handleStartOver :: "wizard \<Rightarrow> wizard" where
  "handleStartOver s =
     (if truthy (error s) then
        (let s1 = (if isGeneratingEssay s \<or> currentStep s = 4 then s\<lparr>currentStep := 3\<rparr>
                   else if isGeneratingOutline s \<or> currentStep s = 3 then s\<lparr>currentStep := 1\<rparr>
                   else s)
         in s1\<lparr>error := None\<rparr>)
      else
        s\<lparr>currentStep := 1,
          pastedAssignment := [],
          pastedEssay := [],
          uploadedFile := None,
          uploadedAssignment := None,
          outline := PLACEHOLDER_OUTLINE,
          citations := PLACEHOLDER_CITATIONS,
          isGeneratingOutline := False,
          isGeneratingEssay := False,
          error := None\<rparr>)"

section \<open>The axios client's outline job call (app/services/api.ts)\<close>

text \<open>
  \<^verbatim>\<open>essayAPI.startOutlineAndSourcesJob\<close> inspects the value axios throws, so thrown values
  and response bodies are JSON-like values here.
\<close>

datatype json =
    JNull
  | JUndefined
  | JBool bool
  | JNum int
  | JStr string
  | JArr "json list"
  | JObj "(string \<times> json) list"

datatype 'a axios_call = AxiosOk 'a | AxiosThrew json

text \<open>\<^verbatim>\<open>v && typeof v === 'object'\<close>\<close>

fun truthy_object :: "json \<Rightarrow> bool" where
  "truthy_object (JObj kvs) = True"
| "truthy_object (JArr xs) = True"
| "truthy_object v = False"

text \<open>
  \<^verbatim>\<open>k in v\<close> and \<^verbatim>\<open>v.k\<close> for an object \<open>v\<close> and one of the keys \<^verbatim>\<open>response\<close>,
  \<^verbatim>\<open>data\<close>, \<^verbatim>\<open>error\<close> (none of which an array has).
\<close>

fun has_key :: "string \<Rightarrow> json \<Rightarrow> bool" where
  "has_key k (JObj kvs) = (case map_of kvs k of None \<Rightarrow> False | Some v \<Rightarrow> True)"
| "has_key k v = False"

fun get_prop :: "json \<Rightarrow> string \<Rightarrow> json" where
  "get_prop (JObj kvs) k = (case map_of kvs k of None \<Rightarrow> JUndefined | Some v \<Rightarrow> v)"
| "get_prop v k = JUndefined"

definition isInsufficientCreditsError :: "json \<Rightarrow> bool" where
  "isInsufficientCreditsError err =
     (truthy_object err \<and> has_key ''response'' err \<and>
      truthy_object (get_prop err ''response'') \<and> has_key ''data'' (get_prop err ''response'') \<and>
      truthy_object (get_prop (get_prop err ''response'') ''data'') \<and>
      has_key ''error'' (get_prop (get_prop err ''response'') ''data'') \<and>
      (case get_prop (get_prop (get_prop err ''response'') ''data'') ''error'' of
         JStr m \<Rightarrow> str_includes m ''Insufficient credits''
       | v \<Rightarrow> False))"

text \<open>The function returns the response body, or an object with only an \<^verbatim>\<open>error\<close> member.\<close>

datatype job_call_result = ResponseData json | ErrorOnly string

definition essayAPI_startOutlineAndSourcesJob :: "json axios_call \<Rightarrow> job_call_result" where
  "essayAPI_startOutlineAndSourcesJob outcome =
     (case outcome of
        AxiosOk response_data \<Rightarrow> ResponseData response_data
      | AxiosThrew err \<Rightarrow>
          (if isInsufficientCreditsError err
           then ErrorOnly ''Insufficient credits. Please purchase credits to continue.''
           else ErrorOnly ''Failed to start outline generation''))"

text \<open>
  The value axios throws for an HTTP error response: an \<^verbatim>\<open>AxiosError\<close> with its message,
  the response's status and the response's body.
\<close>

definition axiosHttpError :: "string \<Rightarrow> int \<Rightarrow> json \<Rightarrow> json" where
  "axiosHttpError message http_status body =
     JObj [(''message'', JStr message),
           (''response'', JObj [(''status'', JNum http_status), (''data'', body)])]"

section \<open>The outline job call of the wizard (app/api/essay-api.ts)\<close>

text \<open>
  How a \<^verbatim>\<open>catch (error)\<close> of the wizard sees a thrown value: what axios rejects with is
  an \<^verbatim>\<open>Error\<close> object, whose \<^verbatim>\<open>message\<close> member is the message.
\<close>

definition as_thrown :: "json \<Rightarrow> thrown" where
  "as_thrown err = (case get_prop err ''message'' of JStr m \<Rightarrow> ErrorObj m | v \<Rightarrow> NonError)"

text \<open>
  \<^verbatim>\<open>startOutlineAndSourcesJob\<close>, the function \<^verbatim>\<open>essay-form.tsx\<close> imports: it returns
  \<^verbatim>\<open>response.data\<close> and rethrows whatever the request throws
  (\<^verbatim>\<open>catch (error) { console.error(...); throw error; }\<close>).
\<close>

definition startOutlineAndSourcesJob :: "job_response axios_call \<Rightarrow> job_response call" where
  "startOutlineAndSourcesJob outcome =
     (case outcome of
        AxiosOk response_data \<Rightarrow> Returned response_data
      | AxiosThrew err \<Rightarrow> Threw (as_thrown err))"

section \<open>Credit ledger and job submission (backend)\<close>

text \<open>
  Modelled from the spec: the Credit Ledger's \<^verbatim>\<open>debit\<close> and the Job Store's
  \<^verbatim>\<open>submit\<close>. The backend that implements them is not among the source files; the
  definitions follow the spec's contract: ``\<^verbatim>\<open>debit(user, amount) -> success|InsufficientBalance\<close>'',
  ``\<^verbatim>\<open>InsufficientBalance\<close> when balance < amount; caller must not create a job in this
  case'', ``\<^verbatim>\<open>submit\<close> performs the credit debit, creates a Job record in
  \<^verbatim>\<open>processing\<close> state'', ``created on submission with \<^verbatim>\<open>status = processing, progress = 0\<close>'',
  ``observed cost: 2 credits per full essay generation''.
\<close>

datatype ledger_error = InsufficientBalance

definition debit :: "int \<Rightarrow> int \<Rightarrow> ledger_error + int" where
  "debit balance amount =
     (if balance < amount then Inl InsufficientBalance else Inr (balance - amount))"

record backend_job =
  bj_status :: job_state
  bj_progress :: int

record backend =
  balances :: "string \<Rightarrow> int"
  jobs :: "string \<rightharpoonup> backend_job"

definition ESSAY_COST :: int where
  "ESSAY_COST = 2"

definition submit :: "backend \<Rightarrow> string \<Rightarrow> string \<Rightarrow> (ledger_error + string) \<times> backend" where
  "submit b user new_job_id =
     (case debit (balances b user) ESSAY_COST of
        Inl e \<Rightarrow> (Inl e, b)
      | Inr new_balance \<Rightarrow>
          (Inr new_job_id,
           b\<lparr>balances := (balances b)(user := new_balance),
             jobs := (jobs b)(new_job_id \<mapsto> \<lparr>bj_status = processing, bj_progress = 0\<rparr>)\<rparr>))"

section \<open>Profile creation at sign-in (app/contexts/AuthContext.tsx)\<close>

text \<open>
  What \<^verbatim>\<open>ensureUserProfile\<close> reads and writes: the browser's \<^verbatim>\<open>localStorage\<close> and the
  \<^verbatim>\<open>user_profiles\<close> table, keyed by the profile id.
\<close>

record profile_world =
  localStorage :: "string \<rightharpoonup> string"
  user_profiles :: "string \<rightharpoonup> user_profile"

text \<open>
  The error, if any, that each database call of \<^verbatim>\<open>ensureUserProfile\<close> reports (the
  \<^verbatim>\<open>select\<close> with \<^verbatim>\<open>maybeSingle\<close>, the \<^verbatim>\<open>update\<close>, the \<^verbatim>\<open>insert\<close>). A call that
  reports an error leaves the table as it was, and the error is thrown into the outer
  \<^verbatim>\<open>catch\<close>, where a call that throws by itself ends up as well. The probing
  \<^verbatim>\<open>select('count')\<close> at the top only logs and is left out.
\<close>

record db_faults =
  fetchError :: "string option"
  updateError :: "string option"
  insertError :: "string option"

text \<open>
  The body of the outer \<^verbatim>\<open>try\<close>; \<open>Inl\<close> is the thrown database error. \<open>now1\<close> and
  \<open>now2\<close> are the values of the successive \<^verbatim>\<open>new Date().toISOString()\<close>.
\<close>

definition ensureUserProfile_try ::
    "db_faults \<Rightarrow> string \<Rightarrow> string \<Rightarrow> profile_world \<Rightarrow> string \<Rightarrow> string \<Rightarrow> string + profile_world" where
  "ensureUserProfile_try faults now1 now2 w userId email =
     (let profileKey = ''profile_created_'' @ userId
      in if truthy (localStorage w profileKey) then Inr w
         else
           (case fetchError faults of
              Some fetchErr \<Rightarrow> Inl fetchErr
            | None \<Rightarrow>
                (case user_profiles w userId of
                   Some existingProfile \<Rightarrow>
                     (case updateError faults of
                        Some updateErr \<Rightarrow> Inl updateErr
                      | None \<Rightarrow>
                          Inr (w\<lparr>user_profiles := (user_profiles w)(userId \<mapsto>
                                     existingProfile\<lparr>up_email := email, up_updated_at := now1\<rparr>),
                                 localStorage := (localStorage w)(profileKey \<mapsto> ''true'')\<rparr>))
                 | None \<Rightarrow>
                     (case insertError faults of
                        Some insertErr \<Rightarrow> Inl insertErr
                      | None \<Rightarrow>
                          Inr (w\<lparr>user_profiles := (user_profiles w)(userId \<mapsto>
                                     \<lparr>up_id = userId, up_email = email, up_full_name = None,
                                      up_credits = 2, up_created_at = now1,
                                      up_updated_at = now2\<rparr>),
                                 localStorage := (localStorage w)(profileKey \<mapsto> ''true'')\<rparr>)))))"

text \<open>\<^verbatim>\<open>catch (error) { /* Don't rethrow */ }\<close>\<close>

definition ensureUserProfile ::
    "db_faults \<Rightarrow> string \<Rightarrow> string \<Rightarrow> profile_world \<Rightarrow> string \<Rightarrow> string \<Rightarrow> profile_world" where
  "ensureUserProfile faults now1 now2 w userId email =
     (case ensureUserProfile_try faults now1 now2 w userId email of
        Inl e \<Rightarrow> w
      | Inr w' \<Rightarrow> w')"

definition no_faults :: db_faults where
  "no_faults = \<lparr>fetchError = None, updateError = None, insertError = None\<rparr>"

section \<open>CSRF middleware (middleware/csrf.ts)\<close>

text \<open>
  \<^verbatim>\<open>hashToken\<close> is the hex encoding of the SHA-256 digest of the token followed by the
  secret. The digest is the platform's (\<^verbatim>\<open>crypto.subtle.digest\<close>) and the secret comes
  from the environment, so both are parameters.
\<close>

definition hashToken :: "(string \<Rightarrow> string) \<Rightarrow> string \<Rightarrow> string \<Rightarrow> string" where
  "hashToken sha256_hex secret token = sha256_hex (token @ secret)"

definition verifyToken :: "(string \<Rightarrow> string) \<Rightarrow> string \<Rightarrow> string \<Rightarrow> string \<Rightarrow> bool" where
  "verifyToken sha256_hex secret token hash = (hashToken sha256_hex secret token = hash)"

text \<open>
  The parts of a request the middleware reads, and its two kinds of response:
  \<^verbatim>\<open>NextResponse.next()\<close>, carrying the value of a newly set \<^verbatim>\<open>csrf-token\<close> cookie if
  any, or the 403 response (a new response object, without that cookie).
\<close>

record csrf_request =
  req_method :: string
  req_csrf_cookie :: "string option"
  req_csrf_header :: "string option"

datatype csrf_response = Next "string option" | Forbidden

text \<open>\<open>fresh\<close> is the value \<^verbatim>\<open>generateToken()\<close> would return.\<close>

definition csrfMiddleware ::
    "(string \<Rightarrow> string) \<Rightarrow> string \<Rightarrow> string \<Rightarrow> csrf_request \<Rightarrow> csrf_response" where
  "csrfMiddleware sha256_hex secret fresh req =
     (if req_method req \<in> set [''GET'', ''HEAD'', ''OPTIONS''] then Next None
      else
        (let have_cookie = truthy (req_csrf_cookie req);
             csrfToken = (case req_csrf_cookie req of
                            None \<Rightarrow> fresh
                          | Some c \<Rightarrow> (if c = [] then fresh else c));
             set_cookie = (if have_cookie then None
                           else Some (hashToken sha256_hex secret fresh))
         in case req_csrf_header req of
              None \<Rightarrow> Forbidden
            | Some headerToken \<Rightarrow>
                (if headerToken = [] then Forbidden
                 else if verifyToken sha256_hex secret headerToken csrfToken then Next set_cookie
                 else Forbidden)))"

section \<open>Concrete inputs\<close>

text \<open>
  A wizard in the middle of polling an outline job submitted from step 4, one polling an
  essay job submitted from step 6, and some answers of the status endpoints.
\<close>

definition polling_wizard :: wizard where
  "polling_wizard =
     initial_wizard\<lparr>currentStep := 4, isLoading := True, isGeneratingOutline := True,
                    loadingStage := Some Sources, jobId := Some ''job-1''\<rparr>"

definition essay_polling_wizard :: wizard where
  "essay_polling_wizard =
     initial_wizard\<lparr>currentStep := 6, isLoading := True, isGeneratingEssay := True,
                    generationStage := \<lparr>writing = True, plagiarism = False, finalizing = False\<rparr>,
                    essayJobId := Some ''job-2''\<rparr>"

definition processing_status :: "api_response job_status" where
  "processing_status =
     \<lparr>js_status = processing, js_progress = 40, js_stage = ''finding_sources'',
      js_result = None, js_error = None\<rparr>"

definition failed_status :: "api_response job_status" where
  "failed_status =
     \<lparr>js_status = failed, js_progress = 40, js_stage = ''finding_sources'',
      js_result = None, js_error = Some ''OpenAI request timed out''\<rparr>"



definition essay_failed_status :: "essay_result job_status" where
  "essay_failed_status =
     \<lparr>js_status = failed, js_progress = 60, js_stage = ''writing_essay'',
      js_result = None, js_error = Some ''OpenAI request timed out''\<rparr>"

text \<open>A submission answered with a guardrail rejection.\<close>

definition guardrail_response :: job_response where
  "guardrail_response =
     \<lparr>jr_job_id = [], jr_status = ''failed'',
      jr_error = Some ''Malicious prompt detected''\<rparr>"

text \<open>Wizards holding the user's input while a job is being polled.\<close>

definition filled_form :: form_data where
  "filled_form =
     \<lparr>topic = ''Analyze the impact of social media on modern communication'',
      wordCount = 2000, citationFormat = ''mla'', writingStyle = ''academic'',
      selectedCitations = [], studentName = ''Ada'', professorName = ''Dr. Hopper'',
      className = ''COMM 101''\<rparr>"

definition filled_outline_wizard :: wizard where
  "filled_outline_wizard =
     polling_wizard\<lparr>formData := filled_form, pastedAssignment := ''Write 2000 words.'',
                    pastedEssay := ''An essay I wrote last term.''\<rparr>"

definition filled_essay_wizard :: wizard where
  "filled_essay_wizard =
     essay_polling_wizard\<lparr>formData := filled_form, pastedAssignment := ''Write 2000 words.'',
                          pastedEssay := ''An essay I wrote last term.''\<rparr>"

text \<open>
  A wizard on step 4 whose input is filled in and which fetched two credits when it was
  mounted; and the two shapes in which the backend may since answer a submission of a
  user left with fewer credits: an HTTP 402 response, which axios throws, and a 200
  response carrying an \<^verbatim>\<open>error\<close> member.
\<close>

definition ready_wizard :: wizard where
  "ready_wizard =
     initial_wizard\<lparr>currentStep := 4, formData := filled_form,
                    userCredits := Some 2, insufficientCredits := False\<rparr>"

definition insufficient_credits_402 :: json where
  "insufficient_credits_402 =
     axiosHttpError ''Request failed with status code 402'' 402
       (JObj [(''error'', JStr ''Insufficient credits'')])"

definition insufficient_credits_200 :: job_response where
  "insufficient_credits_200 =
     \<lparr>jr_job_id = [], jr_status = ''error'', jr_error = Some ''Insufficient credits''\<rparr>"

text \<open>
  The profile table at a first sign-in, and at the sign-in of a user who already has a
  profile with seven credits.
\<close>

definition signup_world :: profile_world where
  "signup_world = \<lparr>localStorage = Map.empty, user_profiles = Map.empty\<rparr>"

definition returning_profile :: user_profile where
  "returning_profile =
     \<lparr>up_id = ''u-1'', up_email = ''old@example.com'', up_full_name = Some ''Ada'',
      up_credits = 7, up_created_at = ''2025-01-01T00:00:00.000Z'',
      up_updated_at = ''2025-01-01T00:00:00.000Z''\<rparr>"

definition returning_world :: profile_world where
  "returning_world =
     \<lparr>localStorage = Map.empty, user_profiles = [''u-1'' \<mapsto> returning_profile]\<rparr>"

text \<open>
  The auth provider and the profile query as a signed-out visitor and as the signed-in
  user of that profile meet them.
\<close>

definition signed_out_env :: supabase_env where
  "signed_out_env =
     \<lparr>auth_getUser = Returned \<lparr>gu_user = None, gu_error = Some ''Auth session missing!''\<rparr>,
      profiles_single = (\<lambda>uid. Threw (ErrorObj ''Failed to fetch''))\<rparr>"

definition signed_in_env :: supabase_env where
  "signed_in_env =
     \<lparr>auth_getUser = Returned \<lparr>gu_user = Some ''u-1'', gu_error = None\<rparr>,
      profiles_single =
        (\<lambda>uid. if uid = ''u-1''
               then Returned \<lparr>qr_data = Some returning_profile, qr_error = None\<rparr>
               else Returned \<lparr>qr_data = None, qr_error = Some ''no rows''\<rparr>)\<rparr>"

section \<open>Properties of the pollers\<close>








lemma pollJobStatus_display:
  "\<not> ends_polling (Returned status) \<Longrightarrow>
   loadingProgress (snd (pollJobStatus year s (Returned status))) = js_progress status \<and>
   loadingStage (snd (pollJobStatus year s (Returned status))) =
     (if js_stage status = ''creating_outline'' then Some Outline
      else if js_stage status = ''finding_sources'' then Some Sources
      else loadingStage s)"
  by (simp add: pollJobStatus_def Let_def split: job_state.splits option.splits)

lemma pollEssayStatus_display:
  "\<not> ends_polling (Returned status) \<Longrightarrow>
   loadingProgress (fst (snd (pollEssayStatus s (Returned status)))) = js_progress status \<and>
   generationStage (fst (snd (pollEssayStatus s (Returned status)))) =
     (if js_stage status = ''writing_essay'' then
        \<lparr>writing = True, plagiarism = False, finalizing = False\<rparr>
      else if js_stage status = ''checking_plagiarism'' then
        \<lparr>writing = True, plagiarism = True, finalizing = False\<rparr>
      else if js_stage status = ''finalizing'' then
        \<lparr>writing = True, plagiarism = True, finalizing = True\<rparr>
      else generationStage s)"
  by (simp add: pollEssayStatus_def Let_def split: job_state.splits option.splits)

text \<open>
  C4, as the code has it. The claim asks the pollers to tolerate a status request that
  throws, up to a retry allowance. Neither poller has one: the \<^verbatim>\<open>catch\<close> branch of
  \<^verbatim>\<open>pollJobStatus\<close> and of \<^verbatim>\<open>pollEssayStatus\<close> reports the very first throw as the
  error shown to the user, leaves the loading state, clears the job id (which tears the
  polling effect down) and returns \<^verbatim>\<open>true\<close>, so that no later status request is made
  whatever the endpoint would have answered.
\<close>

theorem poll_error_ends_polling_at_once:
  "fst (pollJobStatus year s (Threw e)) \<and>
   error (snd (pollJobStatus year s (Threw e))) =
     Some (message_or e ''Failed to check job status'') \<and>
   jobId (snd (pollJobStatus year s (Threw e))) = None \<and>
   isLoading (snd (pollJobStatus year s (Threw e))) = False \<and>
   jobPollingActive (snd (pollJobStatus year s (Threw e))) = False \<and>
   fst (pollJobLoop year s (Threw e # later)) = 1 \<and>
   fst (pollEssayStatus s (Threw e)) \<and>
   error (fst (snd (pollEssayStatus s (Threw e)))) =
     Some (message_or e ''Failed to check essay status'') \<and>
   essayJobId (fst (snd (pollEssayStatus s (Threw e)))) = None \<and>
   isLoading (fst (snd (pollEssayStatus s (Threw e)))) = False \<and>
   essayPollingActive (fst (snd (pollEssayStatus s (Threw e)))) = False \<and>
   fst (pollEssayLoop s (Threw e # later')) = 1"
  by (simp add: pollJobStatus_def pollJobStatus_catch_def jobPollingActive_def pollJobLoop_def
      pollEssayStatus_def pollEssayStatus_catch_def essayPollingActive_def pollEssayLoop_def)

text \<open>
  The claim fails at the first poll of a running outline job: one network error, although
  the job is still processing, ends polling after a single request and puts the wizard
  on its error view.
\<close>

theorem single_poll_error_is_surfaced:
  "fst (pollJobStatus 2025 polling_wizard (Threw (ErrorObj ''Network Error''))) = True \<and>
   render (snd (pollJobStatus 2025 polling_wizard (Threw (ErrorObj ''Network Error'')))) =
     ErrorView ''Network Error'' \<and>
   jobPollingActive
     (snd (pollJobStatus 2025 polling_wizard (Threw (ErrorObj ''Network Error'')))) = False \<and>
   fst (pollJobLoop 2025 polling_wizard
          [Threw (ErrorObj ''Network Error''), Returned processing_status]) = 1"
  by (simp add: pollJobStatus_def pollJobStatus_catch_def jobPollingActive_def pollJobLoop_def
      render_def polling_wizard_def initial_wizard_def)







section \<open>Properties of the credits reader\<close>

lemma getUserProfile_never_throws: "\<exists>p. getUserProfile env = Inr p"
  by (simp add: getUserProfile_def split: sum.split)

lemma getUserCredits_value: "getUserCredits env = Inr (credits_of_env env)"
  by (simp add: getUserCredits_def getUserCredits_try_def getUserProfile_def
      getUserProfile_try_def credits_of_env_def credits_or_zero_def or_num_def
      split: call.split option.split sum.split)

text \<open>
  C10: \<^verbatim>\<open>getUserCredits\<close> never throws and always returns a number, and so
  \<^verbatim>\<open>fetchCredits\<close> always stores a number in \<^verbatim>\<open>userCredits\<close>. The number is 0 when
  \<^verbatim>\<open>auth.getUser()\<close> throws, reports an error or has no user, and when the profile
  query throws, reports an error or finds no row; otherwise it is the \<^verbatim>\<open>credits\<close> of
  the row found.
\<close>

theorem getUserCredits_total:
  "(\<exists>n. getUserCredits env = Inr n) \<and>
   (\<exists>n. userCredits (fetchCredits s (getUserCredits env)) = Some n) \<and>
   (auth_getUser env = Threw e \<longrightarrow> getUserCredits env = Inr 0) \<and>
   (auth_getUser env = Returned r \<and> gu_error r = Some userError \<longrightarrow>
      getUserCredits env = Inr 0) \<and>
   (auth_getUser env = Returned r \<and> gu_user r = None \<longrightarrow> getUserCredits env = Inr 0) \<and>
   (auth_getUser env = Returned r \<and> gu_error r = None \<and> gu_user r = Some uid \<longrightarrow>
      (profiles_single env uid = Threw e' \<longrightarrow> getUserCredits env = Inr 0) \<and>
      (profiles_single env uid = Returned q \<and> qr_error q = Some err \<longrightarrow>
         getUserCredits env = Inr 0) \<and>
      (profiles_single env uid = Returned q \<and> qr_error q = None \<and> qr_data q = None \<longrightarrow>
         getUserCredits env = Inr 0) \<and>
      (profiles_single env uid = Returned q \<and> qr_error q = None \<and> qr_data q = Some p \<longrightarrow>
         getUserCredits env = Inr (up_credits p)))"
proof -
  have total: "getUserCredits env = Inr (credits_of_env env)"
    by (rule getUserCredits_value)
  have shown: "userCredits (fetchCredits s (getUserCredits env)) = Some (credits_of_env env)"
    by (simp add: total fetchCredits_def)
  have paths:
    "auth_getUser env = Threw e \<longrightarrow> credits_of_env env = 0"
    "auth_getUser env = Returned r \<and> gu_error r = Some userError \<longrightarrow> credits_of_env env = 0"
    "auth_getUser env = Returned r \<and> gu_user r = None \<longrightarrow> credits_of_env env = 0"
    "auth_getUser env = Returned r \<and> gu_error r = None \<and> gu_user r = Some uid \<longrightarrow>
      (profiles_single env uid = Threw e' \<longrightarrow> credits_of_env env = 0) \<and>
      (profiles_single env uid = Returned q \<and> qr_error q = Some err \<longrightarrow>
         credits_of_env env = 0) \<and>
      (profiles_single env uid = Returned q \<and> qr_error q = None \<and> qr_data q = None \<longrightarrow>
         credits_of_env env = 0) \<and>
      (profiles_single env uid = Returned q \<and> qr_error q = None \<and> qr_data q = Some p \<longrightarrow>
         credits_of_env env = up_credits p)"
    by (auto simp add: credits_of_env_def)
  from total shown paths show ?thesis
    by simp
qed

text \<open>
  The theorem for a signed-out visitor (0), for a signed-in user whose profile holds 7
  credits (7), and when the auth provider cannot be reached (0).
\<close>

theorem getUserCredits_total_witness:
  "getUserCredits signed_out_env = Inr 0 \<and>
   getUserCredits signed_in_env = Inr 7 \<and>
   getUserCredits (signed_in_env\<lparr>auth_getUser := Threw (ErrorObj ''Failed to fetch'')\<rparr>) = Inr 0"
proof -
  have out: "auth_getUser signed_out_env =
        Returned \<lparr>gu_user = None, gu_error = Some ''Auth session missing!''\<rparr>"
    by (simp add: signed_out_env_def)
  have inn: "auth_getUser signed_in_env = Returned \<lparr>gu_user = Some ''u-1'', gu_error = None\<rparr>"
    "profiles_single signed_in_env ''u-1'' =
       Returned \<lparr>qr_data = Some returning_profile, qr_error = None\<rparr>"
    "up_credits returning_profile = 7"
    by (simp_all add: signed_in_env_def returning_profile_def)
  have thr: "auth_getUser (signed_in_env\<lparr>auth_getUser := Threw (ErrorObj ''Failed to fetch'')\<rparr>) =
      Threw (ErrorObj ''Failed to fetch'')"
    by simp
  show ?thesis
    using
      getUserCredits_total [of signed_out_env initial_wizard "ErrorObj []"
        "\<lparr>gu_user = None, gu_error = Some ''Auth session missing!''\<rparr>"
        "''Auth session missing!''" "''u-1''" "ErrorObj []"
        "\<lparr>qr_data = Some returning_profile, qr_error = None\<rparr>" "[]" returning_profile]
      getUserCredits_total [of signed_in_env initial_wizard "ErrorObj []"
        "\<lparr>gu_user = Some ''u-1'', gu_error = None\<rparr>"
        "''Auth session missing!''" "''u-1''" "ErrorObj []"
        "\<lparr>qr_data = Some returning_profile, qr_error = None\<rparr>" "[]" returning_profile]
      getUserCredits_total [of "signed_in_env\<lparr>auth_getUser := Threw (ErrorObj ''Failed to fetch'')\<rparr>"
        initial_wizard "ErrorObj ''Failed to fetch''"
        "\<lparr>gu_user = Some ''u-1'', gu_error = None\<rparr>"
        "''Auth session missing!''" "''u-1''" "ErrorObj []"
        "\<lparr>qr_data = Some returning_profile, qr_error = None\<rparr>" "[]" returning_profile]
      out inn thr
    by simp
qed

section \<open>Properties of the submission handlers\<close>

lemma guardrail_example: "isGuardrailError ''Malicious prompt detected''"
  by (simp add: isGuardrailError_def)

lemma not_guardrail_example: "\<not> isGuardrailError ''Insufficient credits''"
  by (simp add: isGuardrailError_def)

text \<open>
  C3: when the answer to the outline-and-sources submission carries an error message,
  the wizard tells a guardrail rejection (the message contains \<^verbatim>\<open>Malicious prompt\<close> or
  \<^verbatim>\<open>detected something strange\<close>) from any other failure: a guardrail rejection puts
  the wizard on step 1, the topic input, with the message asking to rewrite the topic;
  any other error message is shown as it is and the step is left alone. In both cases
  loading ends, no job id is stored and the form data is kept.
\<close>

theorem outline_guardrail_routes_to_topic_step:
  assumes "jr_error jobResponse = Some e" and "e \<noteq> []"
  shows "(isGuardrailError e \<longrightarrow>
            currentStep (fetchSourcesAndOutline s (Returned jobResponse)) = 1 \<and>
            error (fetchSourcesAndOutline s (Returned jobResponse)) =
              Some ''We detected something strange in your assignment topic and description. Please rewrite it.'') \<and>
         (\<not> isGuardrailError e \<longrightarrow>
            currentStep (fetchSourcesAndOutline s (Returned jobResponse)) = currentStep s \<and>
            error (fetchSourcesAndOutline s (Returned jobResponse)) = Some e) \<and>
         isLoading (fetchSourcesAndOutline s (Returned jobResponse)) = False \<and>
         isGeneratingOutline (fetchSourcesAndOutline s (Returned jobResponse)) = False \<and>
         loadingStage (fetchSourcesAndOutline s (Returned jobResponse)) = None \<and>
         loadingProgress (fetchSourcesAndOutline s (Returned jobResponse)) = 0 \<and>
         jobId (fetchSourcesAndOutline s (Returned jobResponse)) = jobId s \<and>
         formData (fetchSourcesAndOutline s (Returned jobResponse)) = formData s"
  using assms
  by (simp add: fetchSourcesAndOutline_def fetchSourcesAndOutline_catch_def Let_def)

text \<open>
  The theorem at a submission made from step 4: a rejection naming a malicious prompt
  leads to step 1 and the rewrite message, another error leaves step 4 and shows itself.
\<close>

theorem outline_guardrail_routes_to_topic_step_witness:
  "currentStep (fetchSourcesAndOutline (initial_wizard\<lparr>currentStep := 4\<rparr>)
      (Returned guardrail_response)) = 1 \<and>
   render (fetchSourcesAndOutline (initial_wizard\<lparr>currentStep := 4\<rparr>)
      (Returned guardrail_response)) =
     ErrorView ''We detected something strange in your assignment topic and description. Please rewrite it.'' \<and>
   currentStep (fetchSourcesAndOutline (initial_wizard\<lparr>currentStep := 4\<rparr>)
      (Returned (guardrail_response\<lparr>jr_error := Some ''Insufficient credits''\<rparr>))) = 4 \<and>
   render (fetchSourcesAndOutline (initial_wizard\<lparr>currentStep := 4\<rparr>)
      (Returned (guardrail_response\<lparr>jr_error := Some ''Insufficient credits''\<rparr>))) =
     ErrorView ''Insufficient credits''"
  using
    outline_guardrail_routes_to_topic_step [of guardrail_response "''Malicious prompt detected''"
      "initial_wizard\<lparr>currentStep := 4\<rparr>"]
    outline_guardrail_routes_to_topic_step [of
      "guardrail_response\<lparr>jr_error := Some ''Insufficient credits''\<rparr>" "''Insufficient credits''"
      "initial_wizard\<lparr>currentStep := 4\<rparr>"]
    guardrail_example not_guardrail_example
  by (simp add: guardrail_response_def render_def)

text \<open>
  C2, evaluated. On a guardrail rejection \<^verbatim>\<open>generateFinalEssay\<close> calls
  \<^verbatim>\<open>setCurrentStep(2)\<close> under the comment ``Go back to outline editing step''. The
  outline is edited on step 6 (\<^verbatim>\<open>getStepTitle\<close>: ``Outline''); step 2 is the word-count
  step. A submission made from step 6 and rejected by the guardrail therefore shows the
  adjust-your-outline message and, also after the start-over button of the error view,
  leaves the user on the word-count step.
\<close>

theorem essay_guardrail_lands_on_word_count:
  "currentStep (generateFinalEssay (initial_wizard\<lparr>currentStep := 6\<rparr>)
      (Returned guardrail_response)) = 2 \<and>
   render (generateFinalEssay (initial_wizard\<lparr>currentStep := 6\<rparr>)
      (Returned guardrail_response)) =
     ErrorView ''We detected something strange in your outline. Please make adjustments to it.'' \<and>
   currentStep (handleStartOver (generateFinalEssay (initial_wizard\<lparr>currentStep := 6\<rparr>)
      (Returned guardrail_response))) = 2 \<and>
   getStepTitle 2 = ''Word Count'' \<and>
   getStepTitle 6 = ''Outline''"
  using guardrail_example
  by (simp add: generateFinalEssay_def handleStartOver_def render_def getStepTitle_def
      guardrail_response_def initial_wizard_def Let_def)

section \<open>Properties of the credits check\<close>

lemma overlay_after_fetch:
  "credits < 2 \<Longrightarrow> currentStep s = 1 \<Longrightarrow> \<not> truthy (error s) \<Longrightarrow>
   render (fetchCredits s (Inr credits)) = WizardView True"
  by (cases "error s") (auto simp add: render_def fetchCredits_def creditsOverlayShown_def)

lemma insufficient_credits_mapping:
  "str_includes msg ''Insufficient credits'' \<Longrightarrow>
   essayAPI_startOutlineAndSourcesJob
     (AxiosThrew (axiosHttpError message http_status (JObj [(''error'', JStr msg)]))) =
   ErrorOnly ''Insufficient credits. Please purchase credits to continue.''"
  by (simp add: essayAPI_startOutlineAndSourcesJob_def isInsufficientCreditsError_def
      axiosHttpError_def)

lemma submit_insufficient_balance:
  "balances b user < 2 \<Longrightarrow> submit b user new_job_id = (Inl InsufficientBalance, b)"
  by (simp add: submit_def debit_def ESSAY_COST_def)

lemma refused_submission_stores_no_job:
  "jobId (fetchSourcesAndOutline s (Threw e)) = jobId s \<and>
   (truthy (jr_error jobResponse) \<longrightarrow>
      jobId (fetchSourcesAndOutline s (Returned jobResponse)) = jobId s)"
  by (cases "jr_error jobResponse")
     (simp_all add: fetchSourcesAndOutline_def fetchSourcesAndOutline_catch_def Let_def)

text \<open>
  C1, evaluated. The wizard submits through \<^verbatim>\<open>startOutlineAndSourcesJob\<close> of
  \<^verbatim>\<open>app/api/essay-api.ts\<close>, which rethrows what the request throws. When the submission
  of a user who is past step 1 is refused for insufficient credits, the wizard stores no
  job id but shows no purchase prompt either: for an HTTP 402 answer it renders the error
  view with the HTTP client's message, for a 200 answer with an \<^verbatim>\<open>error\<close> member the
  error view with that text, and the purchase overlay, which is tied to step 1, is not
  part of either. The sibling \<^verbatim>\<open>essayAPI.startOutlineAndSourcesJob\<close> of
  \<^verbatim>\<open>app/services/api.ts\<close>, which the wizard does not call, maps the same 402 answer to
  the purchase message.
\<close>

theorem refused_submission_shows_no_purchase_prompt:
  "render (fetchSourcesAndOutline ready_wizard
      (startOutlineAndSourcesJob (AxiosThrew insufficient_credits_402))) =
     ErrorView ''Request failed with status code 402'' \<and>
   render (fetchSourcesAndOutline ready_wizard
      (startOutlineAndSourcesJob (AxiosOk insufficient_credits_200))) =
     ErrorView ''Insufficient credits'' \<and>
   creditsOverlayShown (fetchSourcesAndOutline ready_wizard
      (startOutlineAndSourcesJob (AxiosThrew insufficient_credits_402))) = False \<and>
   jobId (fetchSourcesAndOutline ready_wizard
      (startOutlineAndSourcesJob (AxiosThrew insufficient_credits_402))) = None \<and>
   jobId (fetchSourcesAndOutline ready_wizard
      (startOutlineAndSourcesJob (AxiosOk insufficient_credits_200))) = None \<and>
   essayAPI_startOutlineAndSourcesJob (AxiosThrew insufficient_credits_402) =
     ErrorOnly ''Insufficient credits. Please purchase credits to continue.''"
proof -
  have thrown: "startOutlineAndSourcesJob (AxiosThrew insufficient_credits_402) =
      Threw (ErrorObj ''Request failed with status code 402'')"
    by (simp add: startOutlineAndSourcesJob_def as_thrown_def insufficient_credits_402_def
        axiosHttpError_def)
  have answered: "startOutlineAndSourcesJob (AxiosOk insufficient_credits_200) =
      Returned insufficient_credits_200"
    by (simp add: startOutlineAndSourcesJob_def)
  have plain: "\<not> isGuardrailError ''Insufficient credits''"
    by (simp add: isGuardrailError_def)
  have sibling: "essayAPI_startOutlineAndSourcesJob (AxiosThrew insufficient_credits_402) =
      ErrorOnly ''Insufficient credits. Please purchase credits to continue.''"
    by (simp add: essayAPI_startOutlineAndSourcesJob_def isInsufficientCreditsError_def
        insufficient_credits_402_def axiosHttpError_def)
  show ?thesis
    unfolding thrown answered
    using plain sibling
    by (simp add: fetchSourcesAndOutline_def fetchSourcesAndOutline_catch_def
        render_def creditsOverlayShown_def ready_wizard_def initial_wizard_def
        insufficient_credits_200_def Let_def)
qed

section \<open>Properties of starting over\<close>

text \<open>
  While an error is showing, \<^verbatim>\<open>handleStartOver\<close> changes nothing but the wizard step
  and the error, which it clears: the form data, the pasted assignment and essay and the
  uploads are kept, and it neither stores a job id nor switches loading on, so it starts
  no submission and no poll, and the credits shown are untouched.
\<close>

lemma handleStartOver_after_failure:
  "(truthy (error s) \<longrightarrow>
      handleStartOver s =
        s\<lparr>currentStep := (if isGeneratingEssay s \<or> currentStep s = 4 then 3
                           else if isGeneratingOutline s \<or> currentStep s = 3 then 1
                           else currentStep s),
          error := None\<rparr> \<and>
      formData (handleStartOver s) = formData s \<and>
      pastedAssignment (handleStartOver s) = pastedAssignment s \<and>
      pastedEssay (handleStartOver s) = pastedEssay s \<and>
      uploadedFile (handleStartOver s) = uploadedFile s \<and>
      uploadedAssignment (handleStartOver s) = uploadedAssignment s \<and>
      jobId (handleStartOver s) = jobId s \<and>
      essayJobId (handleStartOver s) = essayJobId s \<and>
      isLoading (handleStartOver s) = isLoading s \<and>
      userCredits (handleStartOver s) = userCredits s) \<and>
   (js_status status = failed \<and> currentStep s = 4 \<longrightarrow>
      currentStep (handleStartOver (snd (pollJobStatus year s (Returned status)))) = 3 \<and>
      error (handleStartOver (snd (pollJobStatus year s (Returned status)))) = None \<and>
      formData (handleStartOver (snd (pollJobStatus year s (Returned status)))) = formData s \<and>
      pastedAssignment (handleStartOver (snd (pollJobStatus year s (Returned status)))) =
        pastedAssignment s \<and>
      pastedEssay (handleStartOver (snd (pollJobStatus year s (Returned status)))) =
        pastedEssay s \<and>
      jobId (handleStartOver (snd (pollJobStatus year s (Returned status)))) = None \<and>
      essayJobId (handleStartOver (snd (pollJobStatus year s (Returned status)))) =
        essayJobId s \<and>
      isLoading (handleStartOver (snd (pollJobStatus year s (Returned status)))) = False \<and>
      userCredits (handleStartOver (snd (pollJobStatus year s (Returned status)))) =
        userCredits s) \<and>
   (js_status status' = failed \<and> currentStep s = 6 \<and> \<not> isGeneratingOutline s \<longrightarrow>
      currentStep (handleStartOver (fst (snd (pollEssayStatus s (Returned status'))))) = 6 \<and>
      error (handleStartOver (fst (snd (pollEssayStatus s (Returned status'))))) = None \<and>
      formData (handleStartOver (fst (snd (pollEssayStatus s (Returned status'))))) =
        formData s \<and>
      pastedAssignment (handleStartOver (fst (snd (pollEssayStatus s (Returned status'))))) =
        pastedAssignment s \<and>
      pastedEssay (handleStartOver (fst (snd (pollEssayStatus s (Returned status'))))) =
        pastedEssay s \<and>
      outline (handleStartOver (fst (snd (pollEssayStatus s (Returned status'))))) =
        outline s \<and>
      citations (handleStartOver (fst (snd (pollEssayStatus s (Returned status'))))) =
        citations s \<and>
      jobId (handleStartOver (fst (snd (pollEssayStatus s (Returned status'))))) = jobId s \<and>
      essayJobId (handleStartOver (fst (snd (pollEssayStatus s (Returned status'))))) = None \<and>
      isLoading (handleStartOver (fst (snd (pollEssayStatus s (Returned status'))))) = False \<and>
      userCredits (handleStartOver (fst (snd (pollEssayStatus s (Returned status'))))) =
        userCredits s)"
proof -
  have general: "handleStartOver s =
        s\<lparr>currentStep := (if isGeneratingEssay s \<or> currentStep s = 4 then 3
                           else if isGeneratingOutline s \<or> currentStep s = 3 then 1
                           else currentStep s),
          error := None\<rparr>" if "truthy (error s)"
    using that by (simp add: handleStartOver_def Let_def)
  have outline_job: "handleStartOver (snd (pollJobStatus year s (Returned status))) =
        s\<lparr>loadingProgress := 0, loadingStage := None, isLoading := False,
          isGeneratingOutline := False, jobId := None, currentStep := 3, error := None\<rparr>"
    if "js_status status = failed" and "currentStep s = 4"
    using that
    by (simp add: handleStartOver_def pollJobStatus_def Let_def or_str_def
        split: option.split)
  have essay_job: "handleStartOver (fst (snd (pollEssayStatus s (Returned status')))) =
        s\<lparr>loadingProgress := 0, generationStage := no_generation, isLoading := False,
          isGeneratingEssay := False, essayJobId := None, error := None\<rparr>"
    if "js_status status' = failed" and "currentStep s = 6" and "\<not> isGeneratingOutline s"
    using that
    by (simp add: handleStartOver_def pollEssayStatus_def Let_def or_str_def
        split: option.split)
  show ?thesis
    by (intro conjI impI) (simp_all add: general outline_job essay_job)
qed

text \<open>
  C7, evaluated. After a failed job, start over keeps the input and issues no request,
  but the step it leads to is not the one its own comments name. The pollers reset
  \<^verbatim>\<open>isGeneratingOutline\<close> and \<^verbatim>\<open>isGeneratingEssay\<close> before the error view is shown,
  so only the tests on \<^verbatim>\<open>currentStep\<close> decide. An outline job is submitted from step
  4: its failure is caught by the \<^verbatim>\<open>currentStep === 4\<close> test of the branch commented
  ``error occurred during essay generation'' and the user lands on step 3, ``Format &
  Style'', although the comment for outline failures says ``go back to input step''
  (\<^verbatim>\<open>setCurrentStep(1)\<close>, step ``Essay Topic''). An essay job is submitted from step 6:
  after its failure no branch applies and the step stays 6, which is no earlier step.
\<close>

theorem start_over_after_failed_job_misses_its_step:
  "render (snd (pollJobStatus 2025 filled_outline_wizard (Returned failed_status))) =
     ErrorView ''OpenAI request timed out'' \<and>
   isGeneratingOutline
     (snd (pollJobStatus 2025 filled_outline_wizard (Returned failed_status))) = False \<and>
   currentStep (handleStartOver
      (snd (pollJobStatus 2025 filled_outline_wizard (Returned failed_status)))) = 3 \<and>
   getStepTitle 3 = ''Format & Style'' \<and>
   getStepTitle 1 = ''Essay Topic'' \<and>
   formData (handleStartOver
      (snd (pollJobStatus 2025 filled_outline_wizard (Returned failed_status)))) = filled_form \<and>
   pastedEssay (handleStartOver
      (snd (pollJobStatus 2025 filled_outline_wizard (Returned failed_status)))) =
     ''An essay I wrote last term.'' \<and>
   jobId (handleStartOver
      (snd (pollJobStatus 2025 filled_outline_wizard (Returned failed_status)))) = None \<and>
   isGeneratingEssay
     (fst (snd (pollEssayStatus filled_essay_wizard (Returned essay_failed_status)))) = False \<and>
   currentStep (handleStartOver
      (fst (snd (pollEssayStatus filled_essay_wizard (Returned essay_failed_status))))) = 6 \<and>
   formData (handleStartOver
      (fst (snd (pollEssayStatus filled_essay_wizard (Returned essay_failed_status))))) =
     filled_form"
  by (simp add: render_def handleStartOver_def pollJobStatus_def pollEssayStatus_def
      getStepTitle_def failed_status_def essay_failed_status_def or_str_def
      filled_outline_wizard_def filled_essay_wizard_def polling_wizard_def
      essay_polling_wizard_def initial_wizard_def Let_def)

section \<open>Properties of profile creation\<close>

lemma ensureUserProfile_keeps_credits:
  "user_profiles w userId = Some p \<Longrightarrow>
   map_option up_credits (user_profiles (ensureUserProfile faults now1 now2 w userId email) userId) =
     Some (up_credits p)"
  by (simp add: ensureUserProfile_def ensureUserProfile_try_def Let_def split: option.split)

lemma ensureUserProfile_other_rows:
  "other \<noteq> userId \<Longrightarrow>
   user_profiles (ensureUserProfile faults now1 now2 w userId email) other = user_profiles w other"
  by (simp add: ensureUserProfile_def ensureUserProfile_try_def Let_def split: option.split)

text \<open>
  C6: if no profile row exists for the user id (and the profile was not already handled
  in this browser, and the database reports no error), \<^verbatim>\<open>ensureUserProfile\<close> inserts a
  row with \<^verbatim>\<open>credits = 2\<close>; if a row exists it changes only \<^verbatim>\<open>email\<close> and
  \<^verbatim>\<open>updated_at\<close>. Whatever happens, an existing row keeps its credits and the rows of
  other users are untouched.
\<close>

theorem ensureUserProfile_grants_two_credits_once:
  "(user_profiles w userId = None \<and> \<not> truthy (localStorage w (''profile_created_'' @ userId)) \<and>
    fetchError faults = None \<and> insertError faults = None \<longrightarrow>
      user_profiles (ensureUserProfile faults now1 now2 w userId email) userId =
        Some \<lparr>up_id = userId, up_email = email, up_full_name = None, up_credits = 2,
              up_created_at = now1, up_updated_at = now2\<rparr>) \<and>
   (user_profiles w userId = Some p \<and> \<not> truthy (localStorage w (''profile_created_'' @ userId)) \<and>
    fetchError faults = None \<and> updateError faults = None \<longrightarrow>
      user_profiles (ensureUserProfile faults now1 now2 w userId email) userId =
        Some (p\<lparr>up_email := email, up_updated_at := now1\<rparr>)) \<and>
   (user_profiles w userId = Some p \<longrightarrow>
      map_option up_credits
        (user_profiles (ensureUserProfile faults now1 now2 w userId email) userId) =
      Some (up_credits p)) \<and>
   (other \<noteq> userId \<longrightarrow>
      user_profiles (ensureUserProfile faults now1 now2 w userId email) other =
      user_profiles w other)"
  using ensureUserProfile_keeps_credits [of w userId p faults now1 now2 email]
    ensureUserProfile_other_rows [of other userId faults now1 now2 w email]
  by (simp add: ensureUserProfile_def ensureUserProfile_try_def Let_def)

text \<open>
  The theorem at a first sign-in (the new row has 2 credits) and at the sign-in of a user
  holding 7 credits (only email and timestamp change).
\<close>

theorem ensureUserProfile_grants_two_credits_once_witness:
  "user_profiles (ensureUserProfile no_faults ''2025-06-01T10:00:00.000Z''
      ''2025-06-01T10:00:00.001Z'' signup_world ''u-1'' ''ada@example.com'') ''u-1'' =
     Some \<lparr>up_id = ''u-1'', up_email = ''ada@example.com'', up_full_name = None,
           up_credits = 2, up_created_at = ''2025-06-01T10:00:00.000Z'',
           up_updated_at = ''2025-06-01T10:00:00.001Z''\<rparr> \<and>
   user_profiles (ensureUserProfile no_faults ''2025-06-01T10:00:00.000Z''
      ''2025-06-01T10:00:00.001Z'' returning_world ''u-1'' ''ada@example.com'') ''u-1'' =
     Some (returning_profile\<lparr>up_email := ''ada@example.com'',
                              up_updated_at := ''2025-06-01T10:00:00.000Z''\<rparr>) \<and>
   map_option up_credits (user_profiles (ensureUserProfile no_faults ''2025-06-01T10:00:00.000Z''
      ''2025-06-01T10:00:00.001Z'' returning_world ''u-1'' ''ada@example.com'') ''u-1'') = Some 7"
proof -
  have pre: "user_profiles signup_world ''u-1'' = None"
    "\<not> truthy (localStorage signup_world (''profile_created_'' @ ''u-1''))"
    "user_profiles returning_world ''u-1'' = Some returning_profile"
    "\<not> truthy (localStorage returning_world (''profile_created_'' @ ''u-1''))"
    "fetchError no_faults = None" "insertError no_faults = None" "updateError no_faults = None"
    "up_credits returning_profile = 7"
    by (simp_all add: signup_world_def returning_world_def no_faults_def returning_profile_def)
  show ?thesis
    using pre
      ensureUserProfile_grants_two_credits_once [of signup_world "''u-1''" no_faults
        "''2025-06-01T10:00:00.000Z''" "''2025-06-01T10:00:00.001Z''" "''ada@example.com''"
        returning_profile "''u-2''"]
      ensureUserProfile_grants_two_credits_once [of returning_world "''u-1''" no_faults
        "''2025-06-01T10:00:00.000Z''" "''2025-06-01T10:00:00.001Z''" "''ada@example.com''"
        returning_profile "''u-2''"]
    by simp
qed

section \<open>Properties of the CSRF middleware\<close>

text \<open>
  A state-changing request without an \<^verbatim>\<open>x-csrf-token\<close> header is refused, whatever the
  digest, the secret and the cookie are.
\<close>

lemma csrfMiddleware_without_header:
  "req_method req \<notin> set [''GET'', ''HEAD'', ''OPTIONS''] \<Longrightarrow> \<not> truthy (req_csrf_header req) \<Longrightarrow>
   csrfMiddleware sha256_hex secret fresh req = Forbidden"
  by (cases "req_csrf_header req") (simp_all add: csrfMiddleware_def Let_def)

text \<open>
  A state-changing request that sends the cookie's own value as the header is accepted
  exactly if that value is a fixed point of the salted digest, since the middleware
  compares the digest of the header with the cookie.
\<close>

lemma csrfMiddleware_cookie_as_header:
  "req_method req \<notin> set [''GET'', ''HEAD'', ''OPTIONS''] \<Longrightarrow>
   req_csrf_cookie req = Some c \<Longrightarrow> req_csrf_header req = Some c \<Longrightarrow> c \<noteq> [] \<Longrightarrow>
   (csrfMiddleware sha256_hex secret fresh req = Forbidden) = (sha256_hex (c @ secret) \<noteq> c)"
  by (simp add: csrfMiddleware_def Let_def verifyToken_def hashToken_def)

text \<open>
  Without a cookie the header is checked against the freshly generated token itself, and
  the cookie holding its digest is attached only to an accepted request.
\<close>

lemma csrfMiddleware_first_request:
  "req_method req \<notin> set [''GET'', ''HEAD'', ''OPTIONS''] \<Longrightarrow>
   req_csrf_cookie req = None \<Longrightarrow> req_csrf_header req = Some h \<Longrightarrow> h \<noteq> [] \<Longrightarrow>
   csrfMiddleware sha256_hex secret fresh req =
     (if sha256_hex (h @ secret) = fresh then Next (Some (sha256_hex (fresh @ secret)))
      else Forbidden)"
  by (simp add: csrfMiddleware_def Let_def verifyToken_def hashToken_def)

end
